theory Spec2Isabelle
  imports Main
begin

section \<open>Data model\<close>

text \<open>
  The core of \<^verbatim>\<open>app.py\<close> works on pandas data frames.  A data frame is modelled as
  the list of its rows, in row order, and each row as a record whose fields are the
  columns.  All numeric columns hold Python integers.
\<close>

text \<open>A row of \<^verbatim>\<open>gw_points_df\<close>, as \<^verbatim>\<open>build_gw_points\<close> creates it.\<close>

record gw_row =
  entry :: int
  event :: int
  gw_points :: int
  total_points :: int

text \<open>
  A value of the \<^verbatim>\<open>overrides\<close> dictionary, as \<^verbatim>\<open>load_overrides\<close> creates it: a
  dictionary with exactly the two keys \<^verbatim>\<open>action\<close> and \<^verbatim>\<open>note\<close>.  The action is kept
  as the string it is in the source.
\<close>

record override =
  action :: string
  "note" :: string

text \<open>
  A row of the frame \<^verbatim>\<open>compute_last_by_gw\<close> returns.  A \<^verbatim>\<open>min_points\<close> cell is
  \<open>Some v\<close> for a number of value \<open>v\<close> (an int64, or a float64 whose value is an
  integer) and \<open>None\<close> for a missing one (\<^verbatim>\<open>None\<close> or NaN); \<^verbatim>\<open>None\<close> as a reason
  is \<open>None\<close> of the option type.
\<close>

record last_row =
  event :: int
  min_points :: "int option"
  last_entries :: "int list"
  reason :: "string option"

text \<open>A row of \<^verbatim>\<open>entries_df\<close>, as \<^verbatim>\<open>get_all_entries\<close> creates it.\<close>

record member =
  entry :: int
  entry_name :: string
  player_name :: string

text \<open>
  A row of the frame \<^verbatim>\<open>merge_overview\<close> returns: the columns of \<^verbatim>\<open>entries_df\<close>
  and the three merged ones.  A \<^verbatim>\<open>forfeits\<close> cell that a left merge leaves
  without a value (NaN in pandas) is \<open>None\<close>.
\<close>

record overview_row = member +
  times_last :: nat
  last_gws :: "int list"
  forfeits :: "string option"

section \<open>The resolver: \<^verbatim>\<open>compute_last_by_gw\<close>\<close>

text \<open>\<^verbatim>\<open>Series.min()\<close> of a column with at least one value \<open>x\<close>.\<close>

definition series_min :: "int \<Rightarrow> int list \<Rightarrow> int" where
  "series_min x xs = fold min xs x"

text \<open>
  The body of the loop for one gameweek.  An override taken from the dictionary is a
  dictionary with two keys, so the test \<^verbatim>\<open>if ov:\<close> succeeds exactly when the
  gameweek has an entry.
\<close>

definition gw_result :: "gw_row list \<Rightarrow> (int \<rightharpoonup> override) \<Rightarrow> int \<Rightarrow> last_row" where
  "gw_result gw_points_df overrides gw =
     (case filter (\<lambda>r. gw_row.event r = gw) gw_points_df of
        [] \<Rightarrow> \<lparr>last_row.event = gw, min_points = None, last_entries = [],
               reason = Some ''no-data''\<rparr>
      | r # rs \<Rightarrow>
          (let sub = r # rs;
               min_pts = series_min (gw_points r) (map gw_points rs);
               last = map gw_row.entry (filter (\<lambda>r. gw_points r = min_pts) sub)
           in case overrides gw of
                None \<Rightarrow> \<lparr>last_row.event = gw, min_points = Some min_pts,
                         last_entries = last, reason = None\<rparr>
              | Some ov \<Rightarrow>
                  (if action ov = ''eject''
                   then \<lparr>last_row.event = gw, min_points = Some min_pts,
                         last_entries = [], reason = Some ''ejected''\<rparr>
                   else if action ov = ''skip''
                   then \<lparr>last_row.event = gw, min_points = Some min_pts,
                         last_entries = [], reason = Some ''skipped''\<rparr>
                   else \<lparr>last_row.event = gw, min_points = Some min_pts,
                         last_entries = last, reason = None\<rparr>)))"

text \<open>
  The loop \<^verbatim>\<open>for gw in range(gw_from, gw_to + 1)\<close>, with the list \<^verbatim>\<open>out\<close> it
  appends to.
\<close>

function gw_loop ::
  "gw_row list \<Rightarrow> (int \<rightharpoonup> override) \<Rightarrow> int \<Rightarrow> int \<Rightarrow> last_row list \<Rightarrow> last_row list" where
  "gw_loop gw_points_df overrides gw gw_to out =
     (if gw \<le> gw_to
      then gw_loop gw_points_df overrides (gw + 1) gw_to
             (out @ [gw_result gw_points_df overrides gw])
      else out)"
  by pat_completeness auto
termination
  by (relation "measure (\<lambda>(df, ov, gw, gw_to, out). nat (gw_to + 1 - gw))") auto

declare gw_loop.simps [simp del]

text \<open>
  The conversion of an int64 to float64, as a value: the nearest number with a
  significand of 53 bits, the even significand on a tie.  \<open>ulp 1 a\<close> is the distance
  between the doubles around a magnitude \<open>a\<close>: the least power of two \<open>u\<close> with
  \<open>a < 2 ^ 53 * u\<close>.
\<close>

function ulp :: "int \<Rightarrow> int \<Rightarrow> int" where
  "ulp u a = (if 0 < u \<and> 2 ^ 53 * u \<le> a then ulp (2 * u) a else u)"
  by pat_completeness auto
termination
  by (relation "measure (\<lambda>(u, a). nat (a + 1 - 2 ^ 53 * u))") auto

declare ulp.simps [simp del]

definition round_half_even :: "int \<Rightarrow> int \<Rightarrow> int" where
  "round_half_even u n =
     (let q = n div u; r = n mod u
      in if 2 * r < u then q * u
         else if u < 2 * r then (q + 1) * u
         else if even q then q * u else (q + 1) * u)"

definition float64_of_int :: "int \<Rightarrow> int" where
  "float64_of_int n = round_half_even (ulp 1 \<bar>n\<bar>) n"

text \<open>
  \<^verbatim>\<open>pd.DataFrame(out)\<close>.  The columns \<^verbatim>\<open>event\<close>, \<^verbatim>\<open>last_entries\<close> and
  \<^verbatim>\<open>reason\<close> keep their values.  The column \<^verbatim>\<open>min_points\<close> holds the int64
  minima and \<^verbatim>\<open>None\<close> for the gameweeks without rows: when a \<^verbatim>\<open>None\<close> is
  among them pandas stores the column as float64, every minimum converted and every
  \<^verbatim>\<open>None\<close> as NaN; otherwise the minima stay int64.
\<close>

definition float_row :: "last_row \<Rightarrow> last_row" where
  "float_row row = row\<lparr>min_points := map_option float64_of_int (min_points row)\<rparr>"

definition data_frame :: "last_row list \<Rightarrow> last_row list" where
  "data_frame out =
     (if None \<in> set (map min_points out) then map float_row out else out)"

text \<open>
  The whole function, for a frame \<^verbatim>\<open>gw_points_df\<close> whose numeric columns are int64,
  as \<^verbatim>\<open>build_gw_points\<close> creates it from the scores of the API.
\<close>

definition compute_last_by_gw ::
  "gw_row list \<Rightarrow> int \<Rightarrow> int \<Rightarrow> (int \<rightharpoonup> override) \<Rightarrow> last_row list" where
  "compute_last_by_gw gw_points_df gw_from gw_to overrides =
     data_frame (gw_loop gw_points_df overrides gw_from gw_to [])"

definition int64 :: "int \<Rightarrow> bool" where
  "int64 n \<longleftrightarrow> - (2 ^ 63) \<le> n \<and> n < 2 ^ 63"

section \<open>The aggregator: \<^verbatim>\<open>merge_overview\<close>\<close>

text \<open>
  The first loop: the rows \<^verbatim>\<open>{"entry": e, "event": row["event"]}\<close> of
  \<^verbatim>\<open>last_expanded\<close>, as pairs (entry, event).
\<close>

fun last_expanded :: "last_row list \<Rightarrow> (int \<times> int) list" where
  "last_expanded [] = []"
| "last_expanded (row # rows) =
     (if reason row \<in> set [Some ''ejected'', Some ''skipped'', Some ''no-data'']
      then last_expanded rows
      else map (\<lambda>e. (e, last_row.event row)) (last_entries row) @ last_expanded rows)"

text \<open>
  \<^verbatim>\<open>last_map.groupby("entry")["event"]\<close>: the events of the rows of one entry, in row
  order.  A series computed from the groups has a value only for the entries that have
  a group, that is at least one row.
\<close>

definition group_events :: "(int \<times> int) list \<Rightarrow> int \<Rightarrow> int list" where
  "group_events last_map e = map snd (filter (\<lambda>p. fst p = e) last_map)"

definition times_last_series :: "(int \<times> int) list \<Rightarrow> int \<Rightarrow> nat option" where
  "times_last_series last_map e =
     (case group_events last_map e of [] \<Rightarrow> None | g # gs \<Rightarrow> Some (length (g # gs)))"

definition last_gws_series :: "(int \<times> int) list \<Rightarrow> int \<Rightarrow> int list option" where
  "last_gws_series last_map e =
     (case group_events last_map e of [] \<Rightarrow> None | g # gs \<Rightarrow> Some (sort (g # gs)))"

text \<open>
  The two left merges on \<^verbatim>\<open>entry\<close> with the series, followed by
  \<^verbatim>\<open>fillna(0).astype(int)\<close> and by the replacement of every value that is not a list
  by \<^verbatim>\<open>[]\<close>.  A series has at most one value per entry, so each row of
  \<^verbatim>\<open>entries_df\<close> gives one row.
\<close>

definition counted_row :: "(int \<times> int) list \<Rightarrow> member \<Rightarrow> string option \<Rightarrow> overview_row" where
  "counted_row last_map m f =
     \<lparr>member.entry = member.entry m, entry_name = entry_name m, player_name = player_name m,
      times_last = (case times_last_series last_map (member.entry m) of
                      None \<Rightarrow> 0 | Some c \<Rightarrow> c),
      last_gws = (case last_gws_series last_map (member.entry m) of
                    None \<Rightarrow> [] | Some l \<Rightarrow> l),
      forfeits = f\<rparr>"

text \<open>
  \<^verbatim>\<open>ov.merge(forfeits_df, on="entry", how="left")\<close>, where \<^verbatim>\<open>forfeits_df\<close> is the
  list of its rows (entry, forfeits): a left row with matching right rows gives one
  row per match, in the order of the right frame; a left row without a match gives one
  row whose \<^verbatim>\<open>forfeits\<close> cell is missing.
\<close>

definition merge_forfeits ::
  "(int \<times> int) list \<Rightarrow> (int \<times> string) list \<Rightarrow> member \<Rightarrow> overview_row list" where
  "merge_forfeits last_map forfeits_df m =
     (case filter (\<lambda>f. fst f = member.entry m) forfeits_df of
        [] \<Rightarrow> [counted_row last_map m None]
      | f # fs \<Rightarrow> map (\<lambda>f. counted_row last_map m (Some (snd f))) (f # fs))"

text \<open>
  The whole function.  The argument \<^verbatim>\<open>forfeits_df\<close> may be \<^verbatim>\<open>None\<close>; the branch
  \<^verbatim>\<open>ov["forfeits"] = ""\<close> is taken then, and when the frame has no row.
\<close>

definition merge_overview ::
  "member list \<Rightarrow> last_row list \<Rightarrow> (int \<times> string) list option \<Rightarrow> overview_row list" where
  "merge_overview entries_df last_df forfeits_df =
     (let last_map = last_expanded last_df
      in case forfeits_df of
           None \<Rightarrow> map (\<lambda>m. counted_row last_map m (Some '''')) entries_df
         | Some fs \<Rightarrow>
             (if fs \<noteq> []
              then concat (map (merge_forfeits last_map fs) entries_df)
              else map (\<lambda>m. counted_row last_map m (Some '''')) entries_df))"

section \<open>Well-formed inputs of the aggregator\<close>

text \<open>
  The data model of the results: \<^verbatim>\<open>last_entries\<close> stands for a set, so no member is
  listed twice in one round, and \<^verbatim>\<open>reason\<close> is one of the four values that the
  docstring of \<^verbatim>\<open>compute_last_by_gw\<close> names.
\<close>

definition wf_last_row :: "last_row \<Rightarrow> bool" where
  "wf_last_row row \<longleftrightarrow>
     distinct (last_entries row) \<and>
     reason row \<in> set [None, Some ''ejected'', Some ''skipped'', Some ''no-data'']"

text \<open>
  The notes are a mapping from members to strings (the table \<^verbatim>\<open>forfeits\<close> has the
  primary key (league_id, entry)): no entry has two rows in \<^verbatim>\<open>forfeits_df\<close>.
\<close>

definition wf_forfeits :: "(int \<times> string) list option \<Rightarrow> bool" where
  "wf_forfeits forfeits_df \<longleftrightarrow>
     (case forfeits_df of None \<Rightarrow> True | Some fs \<Rightarrow> distinct (map fst fs))"

section \<open>Auxiliary facts about the resolver\<close>

lemma series_min_Min: "series_min x xs = Min (set (x # xs))"
  unfolding series_min_def by (rule Min.set_eq_fold [symmetric])

lemma gw_loop_map:
  "gw_loop df ov gw gw_to out = out @ map (gw_result df ov) [gw..gw_to]"
proof (induction df ov gw gw_to out rule: gw_loop.induct)
  case (1 df ov gw gw_to out)
  show ?case
  proof (cases "gw \<le> gw_to")
    case True
    then have "[gw..gw_to] = gw # [gw + 1..gw_to]"
      by (simp add: upto_rec1)
    with True 1 show ?thesis
      by (subst gw_loop.simps) simp
  next
    case False
    then show ?thesis
      by (subst gw_loop.simps) simp
  qed
qed

lemma compute_last_by_gw_map:
  "compute_last_by_gw df gw_from gw_to ov =
     data_frame (map (gw_result df ov) [gw_from..gw_to])"
  by (simp add: compute_last_by_gw_def gw_loop_map)

lemma float_row_fields:
  "last_row.event (float_row row) = last_row.event row"
  "last_entries (float_row row) = last_entries row"
  "reason (float_row row) = reason row"
  "min_points (float_row row) = map_option float64_of_int (min_points row)"
  by (simp_all add: float_row_def)

lemma float_row_missing: "min_points row = None \<Longrightarrow> float_row row = row"
  by (simp add: float_row_def)

lemma data_frame_columns:
  "map last_row.event (data_frame out) = map last_row.event out"
  "map last_entries (data_frame out) = map last_entries out"
  "map reason (data_frame out) = map reason out"
  "length (data_frame out) = length out"
  by (simp_all add: data_frame_def float_row_fields comp_def)

lemma data_frame_nth:
  assumes "i < length out"
  shows "data_frame out ! i =
    (if None \<in> set (map min_points out) then float_row (out ! i) else out ! i)"
  using assms by (simp add: data_frame_def)

lemma data_frame_row:
  assumes "res \<in> set (data_frame out)"
  shows "\<exists>row\<in>set out. reason res = reason row \<and> last_entries res = last_entries row"
  using assms by (auto simp: data_frame_def float_row_fields split: if_splits)

lemma compute_last_by_gw_nth:
  assumes "gw_from \<le> g" and "g \<le> gw_to"
  shows "compute_last_by_gw df gw_from gw_to ov ! nat (g - gw_from) =
    (if None \<in> set (map min_points (map (gw_result df ov) [gw_from..gw_to]))
     then float_row (gw_result df ov g) else gw_result df ov g)"
proof -
  have "nat (g - gw_from) < length (map (gw_result df ov) [gw_from..gw_to])"
    using assms by simp
  moreover have "[gw_from..gw_to] ! nat (g - gw_from) = g"
    using assms by simp
  ultimately show ?thesis
    unfolding compute_last_by_gw_map using assms by (simp add: data_frame_nth)
qed

lemma compute_last_by_gw_nth_fields:
  assumes "gw_from \<le> g" and "g \<le> gw_to"
  shows "last_row.event (compute_last_by_gw df gw_from gw_to ov ! nat (g - gw_from)) =
           last_row.event (gw_result df ov g)"
    and "last_entries (compute_last_by_gw df gw_from gw_to ov ! nat (g - gw_from)) =
           last_entries (gw_result df ov g)"
    and "reason (compute_last_by_gw df gw_from gw_to ov ! nat (g - gw_from)) =
           reason (gw_result df ov g)"
  by (simp_all add: compute_last_by_gw_nth [OF assms] float_row_fields)

lemma gw_result_event: "last_row.event (gw_result df ov g) = g"
  by (simp add: gw_result_def Let_def split: list.splits option.splits)

lemma series_min_rows:
  "series_min (gw_points r) (map gw_points rs) = Min (gw_points ` set (r # rs))"
  by (simp add: series_min_Min)

lemma filter_event_set:
  "set (filter (\<lambda>r. gw_row.event r = g) df) = {r \<in> set df. gw_row.event r = g}"
  by auto

lemma gw_result_no_data:
  assumes "\<forall>r\<in>set df. gw_row.event r \<noteq> g"
  shows "gw_result df ov g =
    \<lparr>last_row.event = g, min_points = None, last_entries = [], reason = Some ''no-data''\<rparr>"
proof -
  have "filter (\<lambda>r. gw_row.event r = g) df = []"
    using assms by (simp add: filter_empty_conv)
  then show ?thesis
    by (simp add: gw_result_def)
qed

lemma gw_result_data:
  assumes "\<exists>r\<in>set df. gw_row.event r = g"
  shows "gw_result df ov g =
    (let m = Min (gw_points ` {r \<in> set df. gw_row.event r = g});
         last = map gw_row.entry
                  (filter (\<lambda>r. gw_points r = m) (filter (\<lambda>r. gw_row.event r = g) df))
     in case ov g of
          None \<Rightarrow> \<lparr>last_row.event = g, min_points = Some m, last_entries = last, reason = None\<rparr>
        | Some v \<Rightarrow>
            (if action v = ''eject''
             then \<lparr>last_row.event = g, min_points = Some m, last_entries = [],
                   reason = Some ''ejected''\<rparr>
             else if action v = ''skip''
             then \<lparr>last_row.event = g, min_points = Some m, last_entries = [],
                   reason = Some ''skipped''\<rparr>
             else \<lparr>last_row.event = g, min_points = Some m, last_entries = last,
                   reason = None\<rparr>))"
proof -
  from assms have "filter (\<lambda>r. gw_row.event r = g) df \<noteq> []"
    by (simp add: filter_empty_conv)
  then obtain r rs where sub: "filter (\<lambda>r. gw_row.event r = g) df = r # rs"
    by (cases "filter (\<lambda>r. gw_row.event r = g) df") auto
  have "series_min (gw_points r) (map gw_points rs) = Min (gw_points ` set (r # rs))"
    by (rule series_min_rows)
  also have "set (r # rs) = {r \<in> set df. gw_row.event r = g}"
    unfolding sub [symmetric] by (rule filter_event_set)
  finally have m: "series_min (gw_points r) (map gw_points rs) =
      Min (gw_points ` {r \<in> set df. gw_row.event r = g})" .
  show ?thesis
    unfolding gw_result_def sub list.case Let_def m ..
qed

lemma min_row_exists:
  assumes "\<exists>r\<in>set df. gw_row.event r = g"
  shows "\<exists>r\<in>set df. gw_row.event r = g \<and>
           gw_points r = Min (gw_points ` {r \<in> set df. gw_row.event r = g})"
proof -
  let ?S = "gw_points ` {r \<in> set df. gw_row.event r = g}"
  have "finite ?S" by simp
  moreover have "?S \<noteq> {}" using assms by auto
  ultimately have "Min ?S \<in> ?S" by (rule Min_in)
  then show ?thesis by auto
qed

lemma gw_result_reason_None:
  assumes "reason (gw_result df ov g) = None"
  shows "last_entries (gw_result df ov g) \<noteq> []"
proof (cases "\<exists>r\<in>set df. gw_row.event r = g")
  case False
  then have "reason (gw_result df ov g) = Some ''no-data''"
    by (simp add: gw_result_no_data)
  with assms show ?thesis by simp
next
  case True
  from min_row_exists [OF True] obtain r where
    r: "r \<in> set df" "gw_row.event r = g"
       "gw_points r = Min (gw_points ` {r \<in> set df. gw_row.event r = g})"
    by blast
  then have ne: "filter (\<lambda>r. gw_points r = Min (gw_points ` {r \<in> set df. gw_row.event r = g}))
      (filter (\<lambda>r. gw_row.event r = g) df) \<noteq> []"
    by (auto simp: filter_empty_conv)
  show ?thesis
    using assms ne
    by (cases "ov g") (auto simp: gw_result_data [OF True] Let_def split: if_splits)
qed

lemma gw_result_passive_override:
  assumes "ov g = Some v" and "action v \<noteq> ''eject''" and "action v \<noteq> ''skip''"
  shows "gw_result df ov g' = gw_result df (ov(g := None)) g'"
  using assms by (simp add: gw_result_def Let_def split: list.splits option.splits)

lemma compute_passive_override:
  assumes "ov g = Some v" and "action v \<noteq> ''eject''" and "action v \<noteq> ''skip''"
  shows "compute_last_by_gw df gw_from gw_to ov =
         compute_last_by_gw df gw_from gw_to (ov(g := None))"
proof -
  have "gw_result df ov = gw_result df (ov(g := None))"
    by (rule ext) (rule gw_result_passive_override [where ov = ov and g = g, OF assms])
  then show ?thesis
    by (simp add: compute_last_by_gw_map)
qed

lemma float64_of_int_exact:
  assumes "\<bar>n\<bar> \<le> 2 ^ 53"
  shows "float64_of_int n = n"
proof (cases "\<bar>n\<bar> < 2 ^ 53")
  case True
  then have "ulp 1 \<bar>n\<bar> = 1"
    by (subst ulp.simps) simp
  then show ?thesis
    by (simp add: float64_of_int_def round_half_even_def)
next
  case False
  with assms have n: "\<bar>n\<bar> = 2 ^ 53" by simp
  have "ulp 1 \<bar>n\<bar> = ulp 2 \<bar>n\<bar>"
    by (subst ulp.simps) (simp add: n)
  also have "\<dots> = 2"
    by (subst ulp.simps) (simp add: n)
  finally have u: "ulp 1 \<bar>n\<bar> = 2" .
  from n have "n = 2 ^ 53 \<or> n = - (2 ^ 53)" by linarith
  then show ?thesis
    by (auto simp: float64_of_int_def round_half_even_def u)
qed

lemma gw_result_missing:
  "min_points (gw_result df ov g) = None \<longleftrightarrow> (\<forall>r\<in>set df. gw_row.event r \<noteq> g)"
proof (cases "\<exists>r\<in>set df. gw_row.event r = g")
  case True
  then show ?thesis
    by (cases "ov g") (auto simp: gw_result_data [OF True] Let_def)
next
  case False
  then show ?thesis
    by (simp add: gw_result_no_data)
qed

lemma missing_in_range:
  "None \<in> set (map min_points (map (gw_result df ov) [gw_from..gw_to])) \<longleftrightarrow>
   (\<exists>g'\<in>{gw_from..gw_to}. \<forall>r\<in>set df. gw_row.event r \<noteq> g')"
proof -
  have "None \<in> set (map min_points (map (gw_result df ov) [gw_from..gw_to])) \<longleftrightarrow>
      (\<exists>g'\<in>{gw_from..gw_to}. min_points (gw_result df ov g') = None)"
    by (auto simp: image_iff eq_commute [of None])
  then show ?thesis
    by (simp add: gw_result_missing)
qed

section \<open>Claims about the resolver\<close>

text \<open>
  C8: the resolver is a total function that returns exactly one row per gameweek of
  \<open>[gw_from .. gw_to]\<close>, both ends included, in ascending order of gameweek; when
  \<open>gw_from > gw_to\<close> the result is empty.
\<close>

theorem resolver_one_row_per_round:
  "map last_row.event (compute_last_by_gw df gw_from gw_to ov) = [gw_from..gw_to]
   \<and> length (compute_last_by_gw df gw_from gw_to ov) = nat (gw_to - gw_from + 1)
   \<and> (gw_to < gw_from \<longrightarrow> compute_last_by_gw df gw_from gw_to ov = [])"
proof -
  have "map last_row.event (map (gw_result df ov) [gw_from..gw_to]) = [gw_from..gw_to]"
    by (simp add: gw_result_event comp_def)
  then show ?thesis
    by (simp add: compute_last_by_gw_map data_frame_columns) (simp add: data_frame_def)
qed

theorem resolver_one_row_per_round_witness:
  "map last_row.event
     (compute_last_by_gw
        [\<lparr>gw_row.entry = 7, gw_row.event = 3, gw_points = 5, total_points = 9\<rparr>]
        2 4 Map.empty) = [2, 3, 4]
   \<and> (2::int) < 3
   \<and> compute_last_by_gw
        [\<lparr>gw_row.entry = 7, gw_row.event = 3, gw_points = 5, total_points = 9\<rparr>]
        3 2 Map.empty = []"
  using resolver_one_row_per_round
          [of "[\<lparr>gw_row.entry = 7, gw_row.event = 3, gw_points = 5, total_points = 9\<rparr>]"
              2 4 Map.empty]
        resolver_one_row_per_round
          [of "[\<lparr>gw_row.entry = 7, gw_row.event = 3, gw_points = 5, total_points = 9\<rparr>]"
              3 2 Map.empty]
  by (simp add: upto_rec_numeral)

text \<open>
  C4: a gameweek of the range for which \<^verbatim>\<open>gw_points_df\<close> has no row gets
  \<^verbatim>\<open>min_points\<close> \<open>None\<close>, no last entries and the reason \<^verbatim>\<open>no-data\<close>, whatever
  the overrides are.
\<close>

theorem resolver_no_data:
  assumes "gw_from \<le> g" and "g \<le> gw_to"
    and "\<forall>r\<in>set df. gw_row.event r \<noteq> g"
  shows "compute_last_by_gw df gw_from gw_to ov ! nat (g - gw_from) =
    \<lparr>last_row.event = g, min_points = None, last_entries = [], reason = Some ''no-data''\<rparr>"
  using assms by (simp add: compute_last_by_gw_nth gw_result_no_data float_row_missing)

theorem resolver_no_data_witness:
  "compute_last_by_gw
     [\<lparr>gw_row.entry = 7, gw_row.event = 1, gw_points = 5, total_points = 5\<rparr>]
     1 2 [2 \<mapsto> \<lparr>action = ''eject'', note = ''void''\<rparr>] ! nat (2 - 1) =
   \<lparr>last_row.event = 2, min_points = None, last_entries = [], reason = Some ''no-data''\<rparr>"
  using resolver_no_data
          [of 1 2 2 "[\<lparr>gw_row.entry = 7, gw_row.event = 1, gw_points = 5, total_points = 5\<rparr>]"
              "[2 \<mapsto> \<lparr>action = ''eject'', note = ''void''\<rparr>]"]
  by simp

text \<open>
  C1, as the code has it.  For a gameweek \<open>g\<close> of the range with at least one row
  and either no override or an override whose action is \<^verbatim>\<open>none\<close>, and int64
  scores, the row of the result for \<open>g\<close> has as \<^verbatim>\<open>last_entries\<close> exactly the
  entries of the rows of \<open>g\<close> whose points equal the minimum of \<^verbatim>\<open>gw_points\<close> over
  the rows of \<open>g\<close> (every tie is kept), and no reason.  Its \<^verbatim>\<open>min_points\<close> is that
  minimum when every gameweek of the range has rows; when some gameweek of the range
  has none, the column is float64 and \<^verbatim>\<open>min_points\<close> is the minimum converted to
  float64, which is the minimum itself as long as its magnitude is at most \<open>2 ^ 53\<close>.
\<close>

theorem resolver_min_and_ties:
  fixes df :: "gw_row list" and g :: int
  defines "m \<equiv> Min (gw_points ` {r \<in> set df. gw_row.event r = g})"
  assumes "gw_from \<le> g" and "g \<le> gw_to"
    and "\<exists>r\<in>set df. gw_row.event r = g"
    and "ov g = None \<or> (\<exists>v. ov g = Some v \<and> action v = ''none'')"
    and "\<forall>r\<in>set df. int64 (gw_points r)"
  shows "last_row.event (compute_last_by_gw df gw_from gw_to ov ! nat (g - gw_from)) = g
    \<and> min_points (compute_last_by_gw df gw_from gw_to ov ! nat (g - gw_from)) =
        Some (if \<exists>g'\<in>{gw_from..gw_to}. \<forall>r\<in>set df. gw_row.event r \<noteq> g'
              then float64_of_int m else m)
    \<and> ((\<forall>g'\<in>{gw_from..gw_to}. \<exists>r\<in>set df. gw_row.event r = g') \<or> \<bar>m\<bar> \<le> 2 ^ 53 \<longrightarrow>
        min_points (compute_last_by_gw df gw_from gw_to ov ! nat (g - gw_from)) = Some m)
    \<and> set (last_entries (compute_last_by_gw df gw_from gw_to ov ! nat (g - gw_from))) =
        gw_row.entry ` {r \<in> set df. gw_row.event r = g \<and> gw_points r = m}
    \<and> reason (compute_last_by_gw df gw_from gw_to ov ! nat (g - gw_from)) = None"
proof -
  let ?res = "compute_last_by_gw df gw_from gw_to ov ! nat (g - gw_from)"
  let ?gap = "\<exists>g'\<in>{gw_from..gw_to}. \<forall>r\<in>set df. gw_row.event r \<noteq> g'"
  have data: "\<exists>r\<in>set df. gw_row.event r = g" by fact
  have quiet: "gw_result df ov g =
      \<lparr>last_row.event = g, min_points = Some m,
       last_entries = map gw_row.entry
         (filter (\<lambda>r. gw_points r = m) (filter (\<lambda>r. gw_row.event r = g) df)),
       reason = None\<rparr>"
    using assms(5) unfolding m_def
    by (auto simp: gw_result_data [OF data] Let_def)
  have fields: "last_row.event ?res = g" "reason ?res = None"
      "set (last_entries ?res) = gw_row.entry ` {r \<in> set df. gw_row.event r = g \<and> gw_points r = m}"
    using assms(2,3) by (auto simp: compute_last_by_gw_nth_fields quiet)
  have mp: "min_points ?res = Some (if ?gap then float64_of_int m else m)"
  proof -
    have eq: "?res = (if ?gap then float_row (gw_result df ov g) else gw_result df ov g)"
      using compute_last_by_gw_nth [OF assms(2,3), of df ov]
      unfolding missing_in_range .
    show ?thesis
    proof (cases "?gap")
      case True
      with eq have "?res = float_row (gw_result df ov g)"
        by (simp only: if_True)
      then have "min_points ?res = Some (float64_of_int m)"
        by (simp add: float_row_fields quiet)
      with True show ?thesis
        by (simp only: if_True)
    next
      case False
      with eq have "?res = gw_result df ov g"
        by (simp only: if_False)
      then have "min_points ?res = Some m"
        by (simp add: quiet)
      with False show ?thesis
        by (simp only: if_False)
    qed
  qed
  have exact: "min_points ?res = Some m"
    if "(\<forall>g'\<in>{gw_from..gw_to}. \<exists>r\<in>set df. gw_row.event r = g') \<or> \<bar>m\<bar> \<le> 2 ^ 53"
    using that
  proof
    assume "\<forall>g'\<in>{gw_from..gw_to}. \<exists>r\<in>set df. gw_row.event r = g'"
    then have "\<not> ?gap" by blast
    with mp show ?thesis by simp
  next
    assume "\<bar>m\<bar> \<le> 2 ^ 53"
    then have "float64_of_int m = m" by (rule float64_of_int_exact)
    with mp show ?thesis by simp
  qed
  from fields mp exact show ?thesis by blast
qed

theorem resolver_min_and_ties_witness:
  "min_points
     (compute_last_by_gw
        [\<lparr>gw_row.entry = 1, gw_row.event = 5, gw_points = 10, total_points = 50\<rparr>,
         \<lparr>gw_row.entry = 2, gw_row.event = 5, gw_points = 5, total_points = 40\<rparr>,
         \<lparr>gw_row.entry = 3, gw_row.event = 5, gw_points = 5, total_points = 45\<rparr>,
         \<lparr>gw_row.entry = 4, gw_row.event = 5, gw_points = 20, total_points = 60\<rparr>,
         \<lparr>gw_row.entry = 1, gw_row.event = 6, gw_points = 2, total_points = 52\<rparr>]
        5 6 [5 \<mapsto> \<lparr>action = ''none'', note = ''checked''\<rparr>] ! nat (5 - 5)) = Some 5
   \<and> set (last_entries
     (compute_last_by_gw
        [\<lparr>gw_row.entry = 1, gw_row.event = 5, gw_points = 10, total_points = 50\<rparr>,
         \<lparr>gw_row.entry = 2, gw_row.event = 5, gw_points = 5, total_points = 40\<rparr>,
         \<lparr>gw_row.entry = 3, gw_row.event = 5, gw_points = 5, total_points = 45\<rparr>,
         \<lparr>gw_row.entry = 4, gw_row.event = 5, gw_points = 20, total_points = 60\<rparr>,
         \<lparr>gw_row.entry = 1, gw_row.event = 6, gw_points = 2, total_points = 52\<rparr>]
        5 6 [5 \<mapsto> \<lparr>action = ''none'', note = ''checked''\<rparr>] ! nat (5 - 5))) = {2, 3}
   \<and> reason
     (compute_last_by_gw
        [\<lparr>gw_row.entry = 1, gw_row.event = 5, gw_points = 10, total_points = 50\<rparr>,
         \<lparr>gw_row.entry = 2, gw_row.event = 5, gw_points = 5, total_points = 40\<rparr>,
         \<lparr>gw_row.entry = 3, gw_row.event = 5, gw_points = 5, total_points = 45\<rparr>,
         \<lparr>gw_row.entry = 4, gw_row.event = 5, gw_points = 20, total_points = 60\<rparr>,
         \<lparr>gw_row.entry = 1, gw_row.event = 6, gw_points = 2, total_points = 52\<rparr>]
        5 6 [5 \<mapsto> \<lparr>action = ''none'', note = ''checked''\<rparr>] ! nat (5 - 5)) = None"
proof -
  let ?df = "[\<lparr>gw_row.entry = 1, gw_row.event = 5, gw_points = 10, total_points = 50\<rparr>,
         \<lparr>gw_row.entry = 2, gw_row.event = 5, gw_points = 5, total_points = 40\<rparr>,
         \<lparr>gw_row.entry = 3, gw_row.event = 5, gw_points = 5, total_points = 45\<rparr>,
         \<lparr>gw_row.entry = 4, gw_row.event = 5, gw_points = 20, total_points = 60\<rparr>,
         \<lparr>gw_row.entry = 1, gw_row.event = 6, gw_points = 2, total_points = 52\<rparr>]"
  let ?ov = "[5 \<mapsto> \<lparr>action = ''none'', note = ''checked''\<rparr>] :: int \<rightharpoonup> override"
  have m: "Min (gw_points ` {r \<in> set ?df. gw_row.event r = 5}) = 5"
    unfolding set_filter [symmetric] by simp
  have ties: "gw_row.entry ` {r \<in> set ?df. gw_row.event r = 5 \<and> gw_points r = 5} = {2, 3}"
    unfolding set_filter [symmetric] by simp
  have h1: "(5::int) \<le> 5" and h2: "(5::int) \<le> 6" by simp_all
  have h3: "\<exists>r\<in>set ?df. gw_row.event r = 5" by simp
  have h4: "?ov 5 = None \<or> (\<exists>v. ?ov 5 = Some v \<and> action v = ''none'')" by simp
  have h5: "\<forall>r\<in>set ?df. int64 (gw_points r)" by (simp add: int64_def)
  have full: "\<forall>g'\<in>{5..6}. \<exists>r\<in>set ?df. gw_row.event r = g'"
  proof
    fix g' :: int
    assume "g' \<in> {5..6}"
    then have "g' = 5 \<or> g' = 6" by auto
    then show "\<exists>r\<in>set ?df. gw_row.event r = g'" by auto
  qed
  from resolver_min_and_ties
         [where gw_from = 5 and g = 5 and gw_to = 6 and df = "?df" and ov = "?ov",
          OF h1 h2 h3 h4 h5]
  show ?thesis
    unfolding m ties using full by blast
qed

text \<open>
  The claim C1 as it is written fails for \<^verbatim>\<open>min_points\<close>: the score
  \<open>2 ^ 53 + 1\<close> in gameweek 2 of the range 2 to 3, where gameweek 3 has no row,
  comes back as the float64 \<open>2 ^ 53\<close>, which is not the minimum of the gameweek.
\<close>

theorem resolver_min_points_float_counterexample:
  "min_points
     (compute_last_by_gw
        [\<lparr>gw_row.entry = 1, gw_row.event = 2, gw_points = 9007199254740993,
          total_points = 9007199254740993\<rparr>]
        2 3 Map.empty ! nat (2 - 2)) = Some 9007199254740992
   \<and> Min (gw_points ` {r \<in> set
        [\<lparr>gw_row.entry = 1, gw_row.event = 2, gw_points = 9007199254740993,
          total_points = 9007199254740993\<rparr>]. gw_row.event r = 2}) = 9007199254740993"
proof -
  have "ulp 1 9007199254740993 = ulp 2 9007199254740993"
    by (subst ulp.simps) simp
  also have "\<dots> = 2"
    by (subst ulp.simps) simp
  finally have "float64_of_int 9007199254740993 = 9007199254740992"
    by (simp add: float64_of_int_def round_half_even_def)
  moreover have "{r \<in> set
        [\<lparr>gw_row.entry = 1, gw_row.event = 2, gw_points = 9007199254740993,
          total_points = 9007199254740993\<rparr>]. gw_row.event r = 2} =
      {\<lparr>gw_row.entry = 1, gw_row.event = 2, gw_points = 9007199254740993,
          total_points = 9007199254740993\<rparr>}"
    by auto
  ultimately show ?thesis
    by (simp add: compute_last_by_gw_map data_frame_def float_row_def upto_rec_numeral
          gw_result_def series_min_def)
qed

text \<open>
  C10: a row of the result without a reason always names at least one last entry: a
  missing reason means that the gameweek had rows, and the minimum of their points is
  reached by one of them.
\<close>

theorem resolver_undefined_reason_nonempty:
  "\<forall>res\<in>set (compute_last_by_gw df gw_from gw_to ov).
     reason res = None \<longrightarrow> last_entries res \<noteq> []"
proof (intro ballI impI)
  fix res
  assume "res \<in> set (compute_last_by_gw df gw_from gw_to ov)" and none: "reason res = None"
  then obtain row where "row \<in> set (map (gw_result df ov) [gw_from..gw_to])"
    and eq: "reason res = reason row" "last_entries res = last_entries row"
    unfolding compute_last_by_gw_map by (blast dest: data_frame_row)
  then obtain g where "row = gw_result df ov g" by auto
  with none eq show "last_entries res \<noteq> []"
    by (simp add: gw_result_reason_None)
qed

theorem resolver_undefined_reason_nonempty_witness:
  "reason (compute_last_by_gw
        [\<lparr>gw_row.entry = 1, gw_row.event = 5, gw_points = 10, total_points = 50\<rparr>,
         \<lparr>gw_row.entry = 2, gw_row.event = 5, gw_points = 5, total_points = 40\<rparr>]
        5 5 Map.empty ! 0) = None
   \<and> last_entries (compute_last_by_gw
        [\<lparr>gw_row.entry = 1, gw_row.event = 5, gw_points = 10, total_points = 50\<rparr>,
         \<lparr>gw_row.entry = 2, gw_row.event = 5, gw_points = 5, total_points = 40\<rparr>]
        5 5 Map.empty ! 0) \<noteq> []"
proof -
  let ?out = "compute_last_by_gw
        [\<lparr>gw_row.entry = 1, gw_row.event = 5, gw_points = 10, total_points = 50\<rparr>,
         \<lparr>gw_row.entry = 2, gw_row.event = 5, gw_points = 5, total_points = 40\<rparr>]
        5 5 Map.empty"
  have r: "reason (?out ! 0) = None"
    by (simp add: compute_last_by_gw_map data_frame_def float_row_def upto_rec_numeral gw_result_def series_min_def)
  have "?out ! 0 \<in> set ?out"
    by (simp add: compute_last_by_gw_map data_frame_def float_row_def upto_rec_numeral)
  with resolver_undefined_reason_nonempty r show ?thesis
    by blast
qed

text \<open>
  C2, as the code has it.  The test for a gameweek without rows comes first and ends
  the iteration, so an override reaches only a gameweek that has rows.  For a gameweek
  of the range with an override: the action \<^verbatim>\<open>eject\<close> or \<^verbatim>\<open>skip\<close> empties
  \<^verbatim>\<open>last_entries\<close>, and gives the reason \<^verbatim>\<open>ejected\<close> or \<^verbatim>\<open>skipped\<close> when the
  gameweek has at least one row; a gameweek without rows keeps the reason
  \<^verbatim>\<open>no-data\<close>; an override with the action \<^verbatim>\<open>none\<close> gives the same result as
  no override for that gameweek.
\<close>

theorem resolver_override_precedence:
  assumes "gw_from \<le> g" and "g \<le> gw_to" and "ov g = Some v"
  shows "(action v = ''eject'' \<longrightarrow>
            last_entries (compute_last_by_gw df gw_from gw_to ov ! nat (g - gw_from)) = [] \<and>
            ((\<exists>r\<in>set df. gw_row.event r = g) \<longrightarrow>
               reason (compute_last_by_gw df gw_from gw_to ov ! nat (g - gw_from)) =
                 Some ''ejected''))
       \<and> (action v = ''skip'' \<longrightarrow>
            last_entries (compute_last_by_gw df gw_from gw_to ov ! nat (g - gw_from)) = [] \<and>
            ((\<exists>r\<in>set df. gw_row.event r = g) \<longrightarrow>
               reason (compute_last_by_gw df gw_from gw_to ov ! nat (g - gw_from)) =
                 Some ''skipped''))
       \<and> ((\<forall>r\<in>set df. gw_row.event r \<noteq> g) \<longrightarrow>
            last_entries (compute_last_by_gw df gw_from gw_to ov ! nat (g - gw_from)) = [] \<and>
            reason (compute_last_by_gw df gw_from gw_to ov ! nat (g - gw_from)) =
              Some ''no-data'')
       \<and> (action v = ''none'' \<longrightarrow>
            compute_last_by_gw df gw_from gw_to ov =
            compute_last_by_gw df gw_from gw_to (ov(g := None)))"
proof -
  note nth = compute_last_by_gw_nth_fields [OF assms(1,2)]
  have none: "action v = ''none'' \<Longrightarrow>
      compute_last_by_gw df gw_from gw_to ov =
      compute_last_by_gw df gw_from gw_to (ov(g := None))"
    using assms(3) by (intro compute_passive_override [where v = v]) auto
  have nodata: "\<forall>r\<in>set df. gw_row.event r \<noteq> g \<Longrightarrow>
      gw_result df ov g =
      \<lparr>last_row.event = g, min_points = None, last_entries = [], reason = Some ''no-data''\<rparr>"
    by (rule gw_result_no_data)
  have data: "\<exists>r\<in>set df. gw_row.event r = g \<Longrightarrow> action v = ''eject'' \<Longrightarrow>
      last_entries (gw_result df ov g) = [] \<and> reason (gw_result df ov g) = Some ''ejected''"
    using assms(3) by (simp add: gw_result_data Let_def)
  have data': "\<exists>r\<in>set df. gw_row.event r = g \<Longrightarrow> action v = ''skip'' \<Longrightarrow>
      last_entries (gw_result df ov g) = [] \<and> reason (gw_result df ov g) = Some ''skipped''"
    using assms(3) by (simp add: gw_result_data Let_def)
  show ?thesis
    unfolding nth using none nodata data data'
    by (cases "\<exists>r\<in>set df. gw_row.event r = g") auto
qed

theorem resolver_override_precedence_witness:
  "last_entries (compute_last_by_gw
      [\<lparr>gw_row.entry = 7, gw_row.event = 5, gw_points = 3, total_points = 30\<rparr>]
      5 6 [5 \<mapsto> \<lparr>action = ''eject'', note = ''''\<rparr>] ! nat (5 - 5)) = []
   \<and> reason (compute_last_by_gw
      [\<lparr>gw_row.entry = 7, gw_row.event = 5, gw_points = 3, total_points = 30\<rparr>]
      5 6 [5 \<mapsto> \<lparr>action = ''eject'', note = ''''\<rparr>] ! nat (5 - 5)) = Some ''ejected''
   \<and> reason (compute_last_by_gw
      [\<lparr>gw_row.entry = 7, gw_row.event = 5, gw_points = 3, total_points = 30\<rparr>]
      5 6 [5 \<mapsto> \<lparr>action = ''skip'', note = ''''\<rparr>] ! nat (5 - 5)) = Some ''skipped''
   \<and> reason (compute_last_by_gw
      [\<lparr>gw_row.entry = 7, gw_row.event = 5, gw_points = 3, total_points = 30\<rparr>]
      5 6 [6 \<mapsto> \<lparr>action = ''skip'', note = ''''\<rparr>] ! nat (6 - 5)) = Some ''no-data''
   \<and> compute_last_by_gw
      [\<lparr>gw_row.entry = 7, gw_row.event = 5, gw_points = 3, total_points = 30\<rparr>]
      5 6 [5 \<mapsto> \<lparr>action = ''none'', note = ''''\<rparr>] =
     compute_last_by_gw
      [\<lparr>gw_row.entry = 7, gw_row.event = 5, gw_points = 3, total_points = 30\<rparr>]
      5 6 Map.empty"
proof -
  let ?df = "[\<lparr>gw_row.entry = 7, gw_row.event = 5, gw_points = 3, total_points = 30\<rparr>]"
  let ?ov = "\<lambda>g a. [g \<mapsto> \<lparr>action = a, note = ''''\<rparr>] :: int \<rightharpoonup> override"
  have h1: "(5::int) \<le> 5" and h2: "(5::int) \<le> 6" and h3: "(6::int) \<le> 6" by simp_all
  have d5: "\<exists>r\<in>set ?df. gw_row.event r = 5" and d6: "\<forall>r\<in>set ?df. gw_row.event r \<noteq> 6"
    by simp_all
  have e: "?ov 5 ''eject'' 5 = Some \<lparr>action = ''eject'', note = ''''\<rparr>"
    and s: "?ov 5 ''skip'' 5 = Some \<lparr>action = ''skip'', note = ''''\<rparr>"
    and s6: "?ov 6 ''skip'' 6 = Some \<lparr>action = ''skip'', note = ''''\<rparr>"
    and n: "?ov 5 ''none'' 5 = Some \<lparr>action = ''none'', note = ''''\<rparr>"
    by simp_all
  show ?thesis
    using resolver_override_precedence
        [where df = ?df and ov = "?ov 5 ''eject''" and g = 5, OF h1 h2 e]
      resolver_override_precedence
        [where df = ?df and ov = "?ov 5 ''skip''" and g = 5, OF h1 h2 s]
      resolver_override_precedence
        [where df = ?df and ov = "?ov 6 ''skip''" and g = 6, OF h2 h3 s6]
      resolver_override_precedence
        [where df = ?df and ov = "?ov 5 ''none''" and g = 5, OF h1 h2 n]
      d5 d6
    by simp
qed

text \<open>
  The claim C2 as it is written, for every gameweek of the range, fails on a gameweek
  without rows: with the override \<^verbatim>\<open>eject\<close> the reason is \<^verbatim>\<open>no-data\<close>.
\<close>

theorem resolver_eject_without_data_counterexample:
  "reason (compute_last_by_gw
             [\<lparr>gw_row.entry = 7, gw_row.event = 5, gw_points = 3, total_points = 30\<rparr>]
             5 6 [6 \<mapsto> \<lparr>action = ''eject'', note = ''''\<rparr>] ! nat (6 - 5)) = Some ''no-data''
   \<and> reason (compute_last_by_gw
             [\<lparr>gw_row.entry = 7, gw_row.event = 5, gw_points = 3, total_points = 30\<rparr>]
             5 6 [6 \<mapsto> \<lparr>action = ''eject'', note = ''''\<rparr>] ! nat (6 - 5)) \<noteq> Some ''ejected''"
  by (simp add: compute_last_by_gw_map data_frame_def float_row_def upto_rec_numeral gw_result_def)

text \<open>
  C5, as the code has it.  The resolver tests the action for \<^verbatim>\<open>eject\<close> and for
  \<^verbatim>\<open>skip\<close> and has one branch for every other string: an override whose action
  is none of \<^verbatim>\<open>none\<close>, \<^verbatim>\<open>skip\<close>, \<^verbatim>\<open>eject\<close> is not rejected, and the result is
  the one without an override for that gameweek, which is also the one for the action
  \<^verbatim>\<open>none\<close>.
\<close>

theorem resolver_unknown_action_as_none:
  assumes "ov g = Some v" and "action v \<notin> {''none'', ''skip'', ''eject''}"
  shows "compute_last_by_gw df gw_from gw_to ov =
           compute_last_by_gw df gw_from gw_to (ov(g := None))
       \<and> compute_last_by_gw df gw_from gw_to ov =
           compute_last_by_gw df gw_from gw_to (ov(g \<mapsto> v\<lparr>action := ''none''\<rparr>))"
proof -
  have a: "compute_last_by_gw df gw_from gw_to ov =
      compute_last_by_gw df gw_from gw_to (ov(g := None))"
    using assms by (intro compute_passive_override [where v = v]) auto
  have "compute_last_by_gw df gw_from gw_to (ov(g \<mapsto> v\<lparr>action := ''none''\<rparr>)) =
      compute_last_by_gw df gw_from gw_to ((ov(g \<mapsto> v\<lparr>action := ''none''\<rparr>))(g := None))"
    by (rule compute_passive_override [where v = "v\<lparr>action := ''none''\<rparr>"]) simp_all
  then have b: "compute_last_by_gw df gw_from gw_to (ov(g \<mapsto> v\<lparr>action := ''none''\<rparr>)) =
      compute_last_by_gw df gw_from gw_to (ov(g := None))"
    by simp
  from a b show ?thesis by simp
qed

theorem resolver_unknown_action_as_none_witness:
  "compute_last_by_gw
     [\<lparr>gw_row.entry = 7, gw_row.event = 5, gw_points = 3, total_points = 30\<rparr>]
     5 5 [5 \<mapsto> \<lparr>action = ''bogus'', note = ''x''\<rparr>] =
   compute_last_by_gw
     [\<lparr>gw_row.entry = 7, gw_row.event = 5, gw_points = 3, total_points = 30\<rparr>]
     5 5 Map.empty
   \<and> compute_last_by_gw
     [\<lparr>gw_row.entry = 7, gw_row.event = 5, gw_points = 3, total_points = 30\<rparr>]
     5 5 [5 \<mapsto> \<lparr>action = ''bogus'', note = ''x''\<rparr>] =
   compute_last_by_gw
     [\<lparr>gw_row.entry = 7, gw_row.event = 5, gw_points = 3, total_points = 30\<rparr>]
     5 5 [5 \<mapsto> \<lparr>action = ''none'', note = ''x''\<rparr>]"
proof -
  let ?ov = "[5 \<mapsto> \<lparr>action = ''bogus'', note = ''x''\<rparr>] :: int \<rightharpoonup> override"
  have h1: "?ov 5 = Some \<lparr>action = ''bogus'', note = ''x''\<rparr>" by simp
  have h2: "action \<lparr>action = ''bogus'', note = ''x''\<rparr> \<notin> {''none'', ''skip'', ''eject''}"
    by simp
  show ?thesis
    using resolver_unknown_action_as_none
        [where ov = ?ov and g = 5 and gw_from = 5 and gw_to = 5
           and df = "[\<lparr>gw_row.entry = 7, gw_row.event = 5, gw_points = 3, total_points = 30\<rparr>]",
         OF h1 h2]
    by (simp only: fun_upd_upd override.simps) auto
qed

text \<open>
  The claim C5 as it is written fails: with the action \<^verbatim>\<open>bogus\<close> the resolver
  returns an ordinary result, the lowest scorer with no reason.
\<close>

theorem resolver_unknown_action_counterexample:
  "compute_last_by_gw
     [\<lparr>gw_row.entry = 7, gw_row.event = 5, gw_points = 3, total_points = 30\<rparr>,
      \<lparr>gw_row.entry = 8, gw_row.event = 5, gw_points = 4, total_points = 31\<rparr>]
     5 5 [5 \<mapsto> \<lparr>action = ''bogus'', note = ''''\<rparr>] =
   [\<lparr>last_row.event = 5, min_points = Some 3, last_entries = [7], reason = None\<rparr>]"
  by (simp add: compute_last_by_gw_map data_frame_def float_row_def upto_rec_numeral gw_result_def series_min_def)

section \<open>Auxiliary facts about the aggregator\<close>

lemma group_events_append:
  "group_events (xs @ ys) e = group_events xs e @ group_events ys e"
  by (simp add: group_events_def)

lemma group_events_Nil: "group_events [] e = []"
  by (simp add: group_events_def)

lemma group_events_row:
  assumes "distinct es"
  shows "group_events (map (\<lambda>e. (e, ev)) es) e = (if e \<in> set es then [ev] else [])"
  using assms by (induction es) (auto simp: group_events_def)

lemma group_events_last_expanded:
  assumes "\<forall>r\<in>set last_df. wf_last_row r"
  shows "group_events (last_expanded last_df) e =
         map last_row.event (filter (\<lambda>r. reason r = None \<and> e \<in> set (last_entries r)) last_df)"
  using assms
proof (induction last_df)
  case Nil
  show ?case by (simp add: group_events_Nil)
next
  case (Cons row rows)
  then have wf: "wf_last_row row" and IH: "group_events (last_expanded rows) e =
      map last_row.event (filter (\<lambda>r. reason r = None \<and> e \<in> set (last_entries r)) rows)"
    by simp_all
  show ?case
  proof (cases "reason row = None")
    case True
    with wf IH show ?thesis
      by (simp add: group_events_append group_events_row wf_last_row_def)
  next
    case False
    with wf have "reason row \<in> set [Some ''ejected'', Some ''skipped'', Some ''no-data'']"
      by (auto simp: wf_last_row_def)
    with False IH show ?thesis by simp
  qed
qed

lemma length_last_expanded:
  assumes "\<forall>r\<in>set last_df. wf_last_row r"
  shows "length (last_expanded last_df) =
         sum_list (map (\<lambda>r. card (set (last_entries r))) (filter (\<lambda>r. reason r = None) last_df))"
  using assms
proof (induction last_df)
  case Nil
  show ?case by simp
next
  case (Cons row rows)
  then have wf: "wf_last_row row" and IH: "length (last_expanded rows) =
      sum_list (map (\<lambda>r. card (set (last_entries r))) (filter (\<lambda>r. reason r = None) rows))"
    by simp_all
  show ?case
  proof (cases "reason row = None")
    case True
    with wf IH show ?thesis
      by (simp add: wf_last_row_def distinct_card)
  next
    case False
    with wf have "reason row \<in> set [Some ''ejected'', Some ''skipped'', Some ''no-data'']"
      by (auto simp: wf_last_row_def)
    with False IH show ?thesis by auto
  qed
qed

lemma fst_last_expanded:
  "fst ` set (last_expanded last_df) \<subseteq>
   (\<Union>r\<in>{r \<in> set last_df. reason r \<notin> set [Some ''ejected'', Some ''skipped'', Some ''no-data'']}.
      set (last_entries r))"
  by (induction last_df) (auto simp: image_iff)

lemma counted_row_times_last:
  "times_last (counted_row last_map m f) = length (group_events last_map (member.entry m))"
  by (simp add: counted_row_def times_last_series_def split: list.splits)

lemma counted_row_last_gws:
  "last_gws (counted_row last_map m f) = sort (group_events last_map (member.entry m))"
  by (simp add: counted_row_def last_gws_series_def split: list.splits)

lemma counted_row_entry: "member.entry (counted_row last_map m f) = member.entry m"
  by (simp add: counted_row_def)

lemma filter_key_unique:
  assumes "distinct (map fst fs)"
  shows "length (filter (\<lambda>f. fst f = e) fs) \<le> 1"
  using assms by (induction fs) (auto simp: filter_empty_conv image_iff)

lemma merge_forfeits_single:
  assumes "distinct (map fst fs)"
  shows "\<exists>c. merge_forfeits last_map fs m = [counted_row last_map m c]"
proof (cases "filter (\<lambda>f. fst f = member.entry m) fs")
  case Nil
  then have "merge_forfeits last_map fs m = [counted_row last_map m None]"
    by (simp add: merge_forfeits_def)
  then show ?thesis ..
next
  case (Cons f rest)
  with filter_key_unique [OF assms, of "member.entry m"] have "rest = []" by simp
  with Cons have "merge_forfeits last_map fs m = [counted_row last_map m (Some (snd f))]"
    by (simp add: merge_forfeits_def)
  then show ?thesis ..
qed

lemma merge_overview_columns:
  assumes wf: "wf_forfeits forfeits_df"
    and p: "\<And>m c. p (counted_row (last_expanded last_df) m c) = q m"
  shows "map p (merge_overview entries_df last_df forfeits_df) = map q entries_df"
proof (cases forfeits_df)
  case None
  then show ?thesis by (simp add: merge_overview_def p)
next
  case (Some fs)
  show ?thesis
  proof (cases "fs = []")
    case True
    with Some show ?thesis by (simp add: merge_overview_def p)
  next
    case False
    from wf Some have d: "distinct (map fst fs)" by (simp add: wf_forfeits_def)
    have "map p (concat (map (merge_forfeits (last_expanded last_df) fs) entries_df)) =
        map q entries_df"
    proof (induction entries_df)
      case Nil
      show ?case by simp
    next
      case (Cons m ms)
      from merge_forfeits_single [OF d] obtain c where
        "merge_forfeits (last_expanded last_df) fs m = [counted_row (last_expanded last_df) m c]"
        by blast
      with Cons show ?case by (simp add: p)
    qed
    with Some False show ?thesis by (simp add: merge_overview_def)
  qed
qed

lemma sum_list_indicator:
  assumes "distinct (map f xs)" and "a \<in> f ` set xs"
  shows "sum_list (map (\<lambda>x. if f x = a then 1 else 0) xs) = (1::nat)"
  using assms
proof (induction xs)
  case Nil
  then show ?case by simp
next
  case (Cons x xs)
  show ?case
  proof (cases "f x = a")
    case True
    with Cons.prems have "\<forall>y\<in>set xs. f y \<noteq> a" by (auto simp: image_iff)
    then have "sum_list (map (\<lambda>x. if f x = a then 1 else 0) xs) = (0::nat)"
      by (induction xs) auto
    with True show ?thesis by simp
  next
    case False
    with Cons show ?thesis by auto
  qed
qed

lemma sum_group_sizes:
  assumes "distinct (map f xs)" and "fst ` set ps \<subseteq> f ` set xs"
  shows "sum_list (map (\<lambda>x. length (group_events ps (f x))) xs) = length ps"
  using assms(2)
proof (induction ps)
  case Nil
  show ?case by (simp add: group_events_def)
next
  case (Cons p ps)
  then have IH: "sum_list (map (\<lambda>x. length (group_events ps (f x))) xs) = length ps"
    and a: "fst p \<in> f ` set xs"
    by auto
  have "sum_list (map (\<lambda>x. length (group_events (p # ps) (f x))) xs) =
      sum_list (map (\<lambda>x. (if f x = fst p then 1 else 0) + length (group_events ps (f x))) xs)"
    by (rule arg_cong [where f = sum_list], rule map_cong) (auto simp: group_events_def)
  also have "\<dots> = sum_list (map (\<lambda>x. if f x = fst p then 1 else 0) xs) +
      sum_list (map (\<lambda>x. length (group_events ps (f x))) xs)"
    by (rule sum_list_addf)
  also have "\<dots> = 1 + length ps"
    using sum_list_indicator [OF assms(1) a] IH by simp
  finally show ?case by simp
qed

section \<open>Claims about the aggregator\<close>

text \<open>
  C3: for well-formed results (each \<^verbatim>\<open>last_entries\<close> a set, each reason one of the
  four values) and notes that are a mapping, the aggregator returns the members of
  \<^verbatim>\<open>entries_df\<close>, one row each and in their order, so that an entry that only
  occurs in the results gets no row.  In every row \<^verbatim>\<open>times_last\<close> is the number of
  result rows without a reason whose \<^verbatim>\<open>last_entries\<close> contain the member, and
  \<^verbatim>\<open>last_gws\<close> is the ascending list of the gameweeks of those rows; a member
  that is in no such row gets 0 and the empty list.
\<close>

theorem aggregator_one_row_per_member:
  assumes "\<forall>r\<in>set last_df. wf_last_row r" and "wf_forfeits forfeits_df"
  shows "map member.entry (merge_overview entries_df last_df forfeits_df) =
           map member.entry entries_df
       \<and> (\<forall>row\<in>set (merge_overview entries_df last_df forfeits_df).
            times_last row =
              length (filter (\<lambda>r. reason r = None \<and> member.entry row \<in> set (last_entries r))
                        last_df)
          \<and> last_gws row =
              sort (map last_row.event
                (filter (\<lambda>r. reason r = None \<and> member.entry row \<in> set (last_entries r))
                   last_df))
          \<and> ((\<forall>r\<in>set last_df. reason r = None \<longrightarrow> member.entry row \<notin> set (last_entries r))
               \<longrightarrow> times_last row = 0 \<and> last_gws row = []))"
proof -
  let ?lm = "last_expanded last_df"
  let ?out = "merge_overview entries_df last_df forfeits_df"
  let ?rounds = "\<lambda>e. filter (\<lambda>r. reason r = None \<and> e \<in> set (last_entries r)) last_df"
  have ge: "group_events ?lm e = map last_row.event (?rounds e)" for e
    using assms(1) by (rule group_events_last_expanded)
  have entries: "map member.entry ?out = map member.entry entries_df"
    using assms(2) by (rule merge_overview_columns) (rule counted_row_entry)
  have cols: "map (\<lambda>row. (member.entry row, times_last row, last_gws row)) ?out =
      map (\<lambda>m. (member.entry m, length (?rounds (member.entry m)),
                 sort (map last_row.event (?rounds (member.entry m))))) entries_df"
    using assms(2)
    by (rule merge_overview_columns)
       (simp add: counted_row_entry counted_row_times_last counted_row_last_gws ge)
  have rows: "times_last row = length (?rounds (member.entry row)) \<and>
      last_gws row = sort (map last_row.event (?rounds (member.entry row)))"
    if "row \<in> set ?out" for row
  proof -
    from that have "(member.entry row, times_last row, last_gws row) \<in>
        set (map (\<lambda>row. (member.entry row, times_last row, last_gws row)) ?out)"
      unfolding set_map by (rule imageI)
    then show ?thesis unfolding cols by auto
  qed
  have none: "?rounds e = []" if "\<forall>r\<in>set last_df. reason r = None \<longrightarrow> e \<notin> set (last_entries r)"
    for e
    using that by (auto simp: filter_empty_conv)
  show ?thesis
    using entries rows none by simp
qed

theorem aggregator_one_row_per_member_witness:
  "map member.entry
     (merge_overview
        [\<lparr>member.entry = 1, entry_name = ''A'', player_name = ''a''\<rparr>,
         \<lparr>member.entry = 2, entry_name = ''B'', player_name = ''b''\<rparr>,
         \<lparr>member.entry = 3, entry_name = ''C'', player_name = ''c''\<rparr>]
        [\<lparr>last_row.event = 7, min_points = Some 4, last_entries = [2], reason = None\<rparr>,
         \<lparr>last_row.event = 5, min_points = Some 5, last_entries = [2, 9], reason = None\<rparr>,
         \<lparr>last_row.event = 6, min_points = Some 8, last_entries = [], reason = Some ''skipped''\<rparr>]
        (Some [(1, ''cake'')])) = [1, 2, 3]
   \<and> times_last
     ((merge_overview
        [\<lparr>member.entry = 1, entry_name = ''A'', player_name = ''a''\<rparr>,
         \<lparr>member.entry = 2, entry_name = ''B'', player_name = ''b''\<rparr>,
         \<lparr>member.entry = 3, entry_name = ''C'', player_name = ''c''\<rparr>]
        [\<lparr>last_row.event = 7, min_points = Some 4, last_entries = [2], reason = None\<rparr>,
         \<lparr>last_row.event = 5, min_points = Some 5, last_entries = [2, 9], reason = None\<rparr>,
         \<lparr>last_row.event = 6, min_points = Some 8, last_entries = [], reason = Some ''skipped''\<rparr>]
        (Some [(1, ''cake'')])) ! 1) = 2
   \<and> last_gws
     ((merge_overview
        [\<lparr>member.entry = 1, entry_name = ''A'', player_name = ''a''\<rparr>,
         \<lparr>member.entry = 2, entry_name = ''B'', player_name = ''b''\<rparr>,
         \<lparr>member.entry = 3, entry_name = ''C'', player_name = ''c''\<rparr>]
        [\<lparr>last_row.event = 7, min_points = Some 4, last_entries = [2], reason = None\<rparr>,
         \<lparr>last_row.event = 5, min_points = Some 5, last_entries = [2, 9], reason = None\<rparr>,
         \<lparr>last_row.event = 6, min_points = Some 8, last_entries = [], reason = Some ''skipped''\<rparr>]
        (Some [(1, ''cake'')])) ! 1) = [5, 7]
   \<and> times_last
     ((merge_overview
        [\<lparr>member.entry = 1, entry_name = ''A'', player_name = ''a''\<rparr>,
         \<lparr>member.entry = 2, entry_name = ''B'', player_name = ''b''\<rparr>,
         \<lparr>member.entry = 3, entry_name = ''C'', player_name = ''c''\<rparr>]
        [\<lparr>last_row.event = 7, min_points = Some 4, last_entries = [2], reason = None\<rparr>,
         \<lparr>last_row.event = 5, min_points = Some 5, last_entries = [2, 9], reason = None\<rparr>,
         \<lparr>last_row.event = 6, min_points = Some 8, last_entries = [], reason = Some ''skipped''\<rparr>]
        (Some [(1, ''cake'')])) ! 2) = 0
   \<and> last_gws
     ((merge_overview
        [\<lparr>member.entry = 1, entry_name = ''A'', player_name = ''a''\<rparr>,
         \<lparr>member.entry = 2, entry_name = ''B'', player_name = ''b''\<rparr>,
         \<lparr>member.entry = 3, entry_name = ''C'', player_name = ''c''\<rparr>]
        [\<lparr>last_row.event = 7, min_points = Some 4, last_entries = [2], reason = None\<rparr>,
         \<lparr>last_row.event = 5, min_points = Some 5, last_entries = [2, 9], reason = None\<rparr>,
         \<lparr>last_row.event = 6, min_points = Some 8, last_entries = [], reason = Some ''skipped''\<rparr>]
        (Some [(1, ''cake'')])) ! 2) = []"
proof -
  let ?es = "[\<lparr>member.entry = 1, entry_name = ''A'', player_name = ''a''\<rparr>,
         \<lparr>member.entry = 2, entry_name = ''B'', player_name = ''b''\<rparr>,
         \<lparr>member.entry = 3, entry_name = ''C'', player_name = ''c''\<rparr>]"
  let ?ld = "[\<lparr>last_row.event = 7, min_points = Some 4, last_entries = [2], reason = None\<rparr>,
         \<lparr>last_row.event = 5, min_points = Some 5, last_entries = [2, 9], reason = None\<rparr>,
         \<lparr>last_row.event = 6, min_points = Some 8, last_entries = [], reason = Some ''skipped''\<rparr>]"
  let ?fd = "Some [(1::int, ''cake'')]"
  let ?out = "merge_overview ?es ?ld ?fd"
  have wf1: "\<forall>r\<in>set ?ld. wf_last_row r" by (simp add: wf_last_row_def)
  have wf2: "wf_forfeits ?fd" by (simp add: wf_forfeits_def)
  note t = aggregator_one_row_per_member [where entries_df = ?es, OF wf1 wf2]
  from t have a: "map member.entry ?out = [1, 2, 3]"
    by simp
  from a have len: "length ?out = 3"
    by (metis length_map length_Cons list.size(3) numeral_3_eq_3)
  have e1: "member.entry (?out ! 1) = 2"
    using len nth_map [of 1 ?out member.entry] unfolding a by simp
  have e2: "member.entry (?out ! 2) = 3"
    using len nth_map [of 2 ?out member.entry] unfolding a by simp
  have m1: "?out ! 1 \<in> set ?out" and m2: "?out ! 2 \<in> set ?out"
    using len by simp_all
  from t m1 have "times_last (?out ! 1) =
      length (filter (\<lambda>r. reason r = None \<and> member.entry (?out ! 1) \<in> set (last_entries r)) ?ld)
    \<and> last_gws (?out ! 1) = sort (map last_row.event
        (filter (\<lambda>r. reason r = None \<and> member.entry (?out ! 1) \<in> set (last_entries r)) ?ld))"
    by blast
  then have b1: "times_last (?out ! 1) = 2 \<and> last_gws (?out ! 1) = [5, 7]"
    unfolding e1 by simp
  from t m2 have "times_last (?out ! 2) =
      length (filter (\<lambda>r. reason r = None \<and> member.entry (?out ! 2) \<in> set (last_entries r)) ?ld)
    \<and> last_gws (?out ! 2) = sort (map last_row.event
        (filter (\<lambda>r. reason r = None \<and> member.entry (?out ! 2) \<in> set (last_entries r)) ?ld))"
    by blast
  then have b2: "times_last (?out ! 2) = 0 \<and> last_gws (?out ! 2) = []"
    unfolding e2 by simp
  from a b1 b2 show ?thesis by blast
qed

text \<open>
  C6: the \<^verbatim>\<open>forfeits\<close> cell of a member without a note should be the empty string.
  The function writes the empty string only when \<^verbatim>\<open>forfeits_df\<close> is missing or has
  no row at all; as soon as one member has a note, the left merge leaves the cell of
  every member without a note missing, and nothing fills it.  Evaluated on two members
  of which the first has a note, and, for comparison, on the same members with an empty
  frame of notes.
\<close>

theorem aggregator_missing_note_is_not_empty_string:
  "map forfeits
     (merge_overview
        [\<lparr>member.entry = 1, entry_name = ''A'', player_name = ''a''\<rparr>,
         \<lparr>member.entry = 2, entry_name = ''B'', player_name = ''b''\<rparr>]
        [] (Some [(1, ''cake'')])) = [Some ''cake'', None]
   \<and> map forfeits
     (merge_overview
        [\<lparr>member.entry = 1, entry_name = ''A'', player_name = ''a''\<rparr>,
         \<lparr>member.entry = 2, entry_name = ''B'', player_name = ''b''\<rparr>]
        [] (Some [])) = [Some '''', Some '''']"
  by (simp add: merge_overview_def merge_forfeits_def counted_row_def)

text \<open>
  C7, as the code has it.  The left merge keeps only the members of \<^verbatim>\<open>entries_df\<close>
  and gives one row per row of \<^verbatim>\<open>entries_df\<close>.  So for members with pairwise
  distinct entries, well-formed results and notes, and results whose last entries in
  rows without a reason are all members of \<^verbatim>\<open>entries_df\<close>, the sum of
  \<^verbatim>\<open>times_last\<close> over the rows of the overview equals the sum, over the result rows
  without a reason, of the number of their last entries.
\<close>

theorem aggregator_conservation:
  assumes "distinct (map member.entry entries_df)"
    and "\<forall>r\<in>set last_df. wf_last_row r"
    and "wf_forfeits forfeits_df"
    and "\<forall>r\<in>set last_df. reason r = None \<longrightarrow>
           set (last_entries r) \<subseteq> member.entry ` set entries_df"
  shows "sum_list (map times_last (merge_overview entries_df last_df forfeits_df)) =
         sum_list (map (\<lambda>r. card (set (last_entries r)))
           (filter (\<lambda>r. reason r = None) last_df))"
proof -
  let ?lm = "last_expanded last_df"
  have "map times_last (merge_overview entries_df last_df forfeits_df) =
      map (\<lambda>m. length (group_events ?lm (member.entry m))) entries_df"
    using assms(3) by (rule merge_overview_columns) (rule counted_row_times_last)
  moreover have "fst ` set ?lm \<subseteq> member.entry ` set entries_df"
  proof -
    have "{r \<in> set last_df. reason r \<notin> set [Some ''ejected'', Some ''skipped'', Some ''no-data'']}
        \<subseteq> {r \<in> set last_df. reason r = None}"
      using assms(2) by (auto simp: wf_last_row_def)
    with fst_last_expanded [of last_df] assms(4) show ?thesis
      by blast
  qed
  then have "sum_list (map (\<lambda>m. length (group_events ?lm (member.entry m))) entries_df) =
      length ?lm"
    using assms(1) by (intro sum_group_sizes)
  ultimately show ?thesis
    using length_last_expanded [OF assms(2)] by simp
qed

theorem aggregator_conservation_witness:
  "sum_list (map times_last
     (merge_overview
        [\<lparr>member.entry = 1, entry_name = ''A'', player_name = ''a''\<rparr>,
         \<lparr>member.entry = 2, entry_name = ''B'', player_name = ''b''\<rparr>,
         \<lparr>member.entry = 3, entry_name = ''C'', player_name = ''c''\<rparr>]
        [\<lparr>last_row.event = 5, min_points = Some 5, last_entries = [2, 3], reason = None\<rparr>,
         \<lparr>last_row.event = 6, min_points = Some 8, last_entries = [], reason = Some ''ejected''\<rparr>,
         \<lparr>last_row.event = 7, min_points = Some 4, last_entries = [2], reason = None\<rparr>]
        (Some [(1, ''cake'')]))) = 3"
proof -
  let ?es = "[\<lparr>member.entry = 1, entry_name = ''A'', player_name = ''a''\<rparr>,
         \<lparr>member.entry = 2, entry_name = ''B'', player_name = ''b''\<rparr>,
         \<lparr>member.entry = 3, entry_name = ''C'', player_name = ''c''\<rparr>]"
  let ?ld = "[\<lparr>last_row.event = 5, min_points = Some 5, last_entries = [2, 3], reason = None\<rparr>,
         \<lparr>last_row.event = 6, min_points = Some 8, last_entries = [], reason = Some ''ejected''\<rparr>,
         \<lparr>last_row.event = 7, min_points = Some 4, last_entries = [2], reason = None\<rparr>]"
  let ?fd = "Some [(1::int, ''cake'')]"
  have h1: "distinct (map member.entry ?es)" by simp
  have h2: "\<forall>r\<in>set ?ld. wf_last_row r" by (simp add: wf_last_row_def)
  have h3: "wf_forfeits ?fd" by (simp add: wf_forfeits_def)
  have h4: "\<forall>r\<in>set ?ld. reason r = None \<longrightarrow>
           set (last_entries r) \<subseteq> member.entry ` set ?es" by simp
  from aggregator_conservation [OF h1 h2 h3 h4] show ?thesis
    by simp
qed

text \<open>
  The claim C7 as it is written, for every input, fails when a result names an entry
  that is no member: entry 9 is dropped, the sum of \<^verbatim>\<open>times_last\<close> is 1 and the
  number of last entries is 2.
\<close>

theorem aggregator_conservation_counterexample:
  "sum_list (map times_last
     (merge_overview
        [\<lparr>member.entry = 1, entry_name = ''A'', player_name = ''a''\<rparr>]
        [\<lparr>last_row.event = 5, min_points = Some 5, last_entries = [1, 9], reason = None\<rparr>]
        None))
   \<noteq> sum_list (map (\<lambda>r. card (set (last_entries r)))
       (filter (\<lambda>r. reason r = None)
          [\<lparr>last_row.event = 5, min_points = Some 5, last_entries = [1, 9], reason = None\<rparr>]))"
  by (simp add: merge_overview_def counted_row_def times_last_series_def group_events_def)

end
